theory Spec2Isabelle
  imports Main "HOL-Library.Word" "HOL-Library.Multiset"
begin

section \<open>The tables of the service\<close>

text \<open>
  The three tables of \<^verbatim>\<open>src/db/models/schema.ts\<close>, one record per table and one
  field per column, named \<^verbatim>\<open>table_column\<close> after drizzle's \<^verbatim>\<open>table.column\<close>.
  A nullable column is an \<open>option\<close>. A \<^verbatim>\<open>uuid\<close> column holds a 128-bit value, a
  \<^verbatim>\<open>timestamp\<close> the reading of the clock (JavaScript's \<^verbatim>\<open>Date\<close>, milliseconds).
  A table is the list of its rows, oldest first. That is the order of insertion only:
  the order in which a query answers its rows is the storage's choice (see the joins).
\<close>

type_synonym uuid = "128 word"

type_synonym timestamp = int

record users_row =
  users_id :: uuid
  users_firstName :: string
  users_lastName :: string
  users_email :: string
  users_phoneNumber :: "string option"
  users_profileImageUrl :: "string option"

record urls_row =
  urls_id :: string
  urls_originalUrl :: string
  urls_shortUrl :: string
  urls_userId :: "uuid option"

record clicks_row =
  clicks_id :: uuid
  clicks_urlId :: "string option"
  clicks_clickCount :: "int option"
  clicks_lastClickedAt :: "timestamp option"

record database =
  users :: "users_row list"
  urls :: "urls_row list"
  clicks :: "clicks_row list"

definition empty_database :: database where
  "empty_database = \<lparr>users = [], urls = [], clicks = []\<rparr>"

text \<open>
  The unique indexes of \<^verbatim>\<open>clicks\<close>. The schema declares \<^verbatim>\<open>id\<close> as primary key and
  nothing else: \<^verbatim>\<open>urlId\<close> is \<^verbatim>\<open>varchar('url_id', { length: 8 }).references(() => urls.id)\<close>
  with no \<^verbatim>\<open>.unique()\<close>, and the migration's \<^verbatim>\<open>CREATE TABLE "clicks"\<close> has no
  \<^verbatim>\<open>UNIQUE\<close> constraint either. (\<^verbatim>\<open>users.email\<close> and \<^verbatim>\<open>urls.short_url\<close> do carry
  \<^verbatim>\<open>.unique()\<close>; the inserts below check them.)
\<close>

datatype clicks_column = Col_id | Col_urlId | Col_clickCount | Col_lastClickedAt

definition clicks_unique_indexes :: "clicks_column list list" where
  "clicks_unique_indexes = [[Col_id]]"

section \<open>What the storage answers\<close>

text \<open>
  A statement that PostgreSQL rejects makes the driver's promise reject with an
  \<^verbatim>\<open>Error\<close> whose \<^verbatim>\<open>message\<close> is the server's text; the handlers' \<^verbatim>\<open>catch\<close>
  blocks look only at that text. The errors that the statements of this service can meet:
  a duplicate key in a unique index, a foreign key without its row, an
  \<^verbatim>\<open>ON CONFLICT\<close> target that no unique index matches, and an integer past 32 bits.
  The storage itself is taken to be reachable: a lost connection is not modelled.
\<close>

datatype db_error =
  UniqueViolation string
  | ForeignKeyViolation string string
  | NoConflictArbiter
  | IntegerOutOfRange

definition quoted :: "string \<Rightarrow> string" where
  "quoted s = [CHR 0x22] @ s @ [CHR 0x22]"

fun message :: "db_error \<Rightarrow> string" where
  "message (UniqueViolation c) =
     ''duplicate key value violates unique constraint '' @ quoted c"
| "message (ForeignKeyViolation t c) =
     ''insert or update on table '' @ quoted t @ '' violates foreign key constraint '' @ quoted c"
| "message NoConflictArbiter =
     ''there is no unique or exclusion constraint matching the ON CONFLICT specification''"
| "message IntegerOutOfRange = ''integer out of range''"

text \<open>JavaScript's \<^verbatim>\<open>s.includes(sub)\<close>: \<open>sub\<close> occurs in \<open>s\<close> at some position.\<close>

fun str_includes :: "string \<Rightarrow> string \<Rightarrow> bool" where
  "str_includes [] sub = (sub = [])"
| "str_includes (c # cs) sub = (take (length sub) (c # cs) = sub \<or> str_includes cs sub)"

subsection \<open>Queries\<close>

text \<open>\<^verbatim>\<open>db.select().from(urls).where(eq(urls.id, shortId))\<close>\<close>

definition select_urls_where_id :: "string \<Rightarrow> database \<Rightarrow> urls_row list" where
  "select_urls_where_id shortId db = filter (\<lambda>u. urls_id u = shortId) (urls db)"

text \<open>\<^verbatim>\<open>db.select().from(users).where(eq(users.id, userId))\<close>\<close>

definition select_users_where_id :: "uuid \<Rightarrow> database \<Rightarrow> users_row list" where
  "select_users_where_id userId db = filter (\<lambda>u. users_id u = userId) (users db)"

text \<open>
  Both selects above are read for their first row only, and the primary keys leave them
  at most one row.
\<close>

text \<open>
  \<^verbatim>\<open>.from(urls).leftJoin(clicks, eq(urls.id, clicks.urlId))\<close>: every URL row with each
  click row whose \<^verbatim>\<open>url_id\<close> is its id, and once with no click row when there is none.
  The queries have no \<^verbatim>\<open>ORDER BY\<close>, so the order of the answer is the storage's
  choice and need not be that of the tables. The choice is the parameter \<open>rank\<close>: the
  rows are answered by ascending rank. Distinct rows can be ranked into any order, and
  the primary keys make the rows of a join distinct.
\<close>

definition clicks_of :: "string \<Rightarrow> database \<Rightarrow> clicks_row list" where
  "clicks_of shortId db = filter (\<lambda>c. clicks_urlId c = Some shortId) (clicks db)"

type_synonym joined = "urls_row \<times> clicks_row option"

definition left_join_clicks ::
    "(joined \<Rightarrow> nat) \<Rightarrow> urls_row list \<Rightarrow> database \<Rightarrow> joined list" where
  "left_join_clicks rank us db =
     sort_key rank
       (concat (map (\<lambda>u. case clicks_of (urls_id u) db of
                            [] \<Rightarrow> [(u, None)]
                          | c # cs \<Rightarrow> map (\<lambda>k. (u, Some k)) (c # cs)) us))"

subsection \<open>Inserts\<close>

text \<open>
  \<^verbatim>\<open>db.insert(users).values(...)\<close>: the primary key and \<^verbatim>\<open>users_email_unique\<close>
  must stay unique; then the row is appended.
\<close>

definition insert_users :: "users_row \<Rightarrow> database \<Rightarrow> db_error + database" where
  "insert_users row db =
     (if list_ex (\<lambda>u. users_id u = users_id row) (users db)
        then Inl (UniqueViolation ''users_pkey'')
      else if list_ex (\<lambda>u. users_email u = users_email row) (users db)
        then Inl (UniqueViolation ''users_email_unique'')
      else Inr (db\<lparr>users := users db @ [row]\<rparr>))"

text \<open>
  \<^verbatim>\<open>db.insert(urls).values(...)\<close>: the primary key and \<^verbatim>\<open>urls_short_url_unique\<close>
  must stay unique, and a \<^verbatim>\<open>user_id\<close> that is not null must be the id of a user.
\<close>

definition insert_urls :: "urls_row \<Rightarrow> database \<Rightarrow> db_error + database" where
  "insert_urls row db =
     (if list_ex (\<lambda>u. urls_id u = urls_id row) (urls db)
        then Inl (UniqueViolation ''urls_pkey'')
      else if list_ex (\<lambda>u. urls_shortUrl u = urls_shortUrl row) (urls db)
        then Inl (UniqueViolation ''urls_short_url_unique'')
      else if (case urls_userId row of
                 None \<Rightarrow> False
               | Some uid \<Rightarrow> select_users_where_id uid db = [])
        then Inl (ForeignKeyViolation ''urls'' ''urls_user_id_users_id_fk'')
      else Inr (db\<lparr>urls := urls db @ [row]\<rparr>))"

text \<open>
  The statement of the redirect handler,
  \<^verbatim>\<open>db.insert(clicks).values({urlId, clickCount: 1, lastClickedAt: new Date()})
    .onConflictDoUpdate({target: [clicks.urlId],
      set: {clickCount: sql`${clicks.clickCount} + 1`, lastClickedAt: new Date()}})\<close>,
  that is \<^verbatim>\<open>INSERT ... ON CONFLICT ("url_id") DO UPDATE SET ...\<close>. PostgreSQL infers the
  arbiter of \<^verbatim>\<open>ON CONFLICT\<close> from the table's unique indexes: one whose columns are
  exactly the target's. With none, the statement is rejected (SQLSTATE 42P10) before it
  touches a row.
  With one, a row with the same \<^verbatim>\<open>url_id\<close> is updated in place and otherwise the new
  row is inserted, under the primary key and the foreign key to \<^verbatim>\<open>urls\<close>. The first
  argument is the list of the table's unique indexes (of those, the function looks at one
  on \<^verbatim>\<open>url_id\<close>, the arbiter, and at the primary key); \<open>newId\<close> is the value that
  \<^verbatim>\<open>gen_random_uuid()\<close> draws for the \<^verbatim>\<open>id\<close> column, and \<open>now\<close> the clock's reading.
\<close>

definition bump_click :: "timestamp \<Rightarrow> clicks_row \<Rightarrow> clicks_row" where
  "bump_click now c =
     c\<lparr>clicks_clickCount := map_option (\<lambda>n. n + 1) (clicks_clickCount c),
       clicks_lastClickedAt := Some now\<rparr>"

definition upsert_clicks ::
    "clicks_column list list \<Rightarrow> uuid \<Rightarrow> string \<Rightarrow> timestamp \<Rightarrow> database
      \<Rightarrow> db_error + database" where
  "upsert_clicks indexes newId urlId now db =
     (if \<not> list_ex (\<lambda>ix. set ix = {Col_urlId}) indexes
        then Inl NoConflictArbiter
      else if clicks_of urlId db \<noteq> []
        then (if list_ex (\<lambda>c. clicks_clickCount c = Some 2147483647) (clicks_of urlId db)
                then Inl IntegerOutOfRange
              else Inr (db\<lparr>clicks := map (\<lambda>c. if clicks_urlId c = Some urlId
                                                then bump_click now c else c) (clicks db)\<rparr>))
      else if list_ex (\<lambda>c. clicks_id c = newId) (clicks db)
        then Inl (UniqueViolation ''clicks_pkey'')
      else if select_urls_where_id urlId db = []
        then Inl (ForeignKeyViolation ''clicks'' ''clicks_url_id_urls_id_fk'')
      else Inr (db\<lparr>clicks := clicks db @
                  [\<lparr>clicks_id = newId, clicks_urlId = Some urlId,
                    clicks_clickCount = Some 1, clicks_lastClickedAt = Some now\<rparr>]\<rparr>))"

section \<open>Requests and replies\<close>

text \<open>
  A reply is its status code and what \<^verbatim>\<open>reply.send\<close> was given: the JSON object
  \<^verbatim>\<open>{error}\<close> or \<^verbatim>\<open>{message}\<close>, the object of a created URL
  \<^verbatim>\<open>{id, originalUrl, shortUrl}\<close>, of the statistics
  \<^verbatim>\<open>{id, originalUrl, shortUrl, clickCount, lastClickedAt}\<close>, of a user, the array of
  a user's URLs (each with its \<^verbatim>\<open>clicks\<close> object), or for \<^verbatim>\<open>reply.redirect(url)\<close>
  the target of the redirect. A field that is \<^verbatim>\<open>null\<close> is \<open>None\<close>. These are the
  values the handlers hand to the framework; what the route then sends is \<open>respond\<close>
  below.
\<close>

datatype payload =
  ErrorBody string
  | MessageBody string
  | UrlBody string string string
  | StatsBody string string string "int option" "timestamp option"
  | UserBody uuid string string string "string option" "string option"
  | UrlListBody
      "(string \<times> string \<times> string \<times> (int option \<times> timestamp option) option) list"
  | RedirectTo string

record reply =
  status :: nat
  payload :: payload

subsection \<open>What the route sends\<close>








text \<open>
  The bodies of the two POST routes. \<^verbatim>\<open>ShortenUrlRequest\<close>: a field that the JSON
  body lacks is \<open>None\<close>; the handler tests both with \<^verbatim>\<open>!\<close>, which holds of an absent
  value and of the empty string. \<^verbatim>\<open>userId\<close> is a uuid (the route's schema admits nothing
  else), which as a text is never empty. \<^verbatim>\<open>CreateUserRequest\<close>: three required strings
  and two optional ones. Lengths and formats are those the routes' schemas admit; the
  framework answers any other body before a handler runs.
\<close>

record ShortenUrlRequest =
  originalUrl :: "string option"
  userId :: "uuid option"

record CreateUserRequest =
  firstName :: string
  lastName :: string
  email :: string
  phoneNumber :: "string option"
  profileImageUrl :: "string option"

definition falsy :: "string option \<Rightarrow> bool" where
  "falsy v = (case v of None \<Rightarrow> True | Some s \<Rightarrow> s = [])"

subsection \<open>The short id\<close>

text \<open>
  \<^verbatim>\<open>crypto.randomBytes(4).toString('hex')\<close>. The generator is a parameter: \<open>rng k\<close> is
  the \<open>k\<close>-th byte it yields. \<^verbatim>\<open>toString('hex')\<close> writes each byte as two lower-case
  hexadecimal digits, the high one first.
\<close>

definition randomBytes :: "nat \<Rightarrow> (nat \<Rightarrow> 8 word) \<Rightarrow> 8 word list" where
  "randomBytes n rng = map rng [0..<n]"

definition hex_digit :: "nat \<Rightarrow> char" where
  "hex_digit d = ''0123456789abcdef'' ! d"

definition hex_byte :: "8 word \<Rightarrow> string" where
  "hex_byte b = [hex_digit (unat b div 16), hex_digit (unat b mod 16)]"

definition toString_hex :: "8 word list \<Rightarrow> string" where
  "toString_hex bs = concat (map hex_byte bs)"

section \<open>The handlers\<close>

text \<open>
  Each handler takes the request and the database and returns its reply and the
  database it leaves. A \<^verbatim>\<open>catch\<close> block is the \<open>Inl\<close> branch of its statement.
\<close>

text \<open>\<^verbatim>\<open>POST /shorten\<close> (urlRoutes.ts)\<close>

definition shorten ::
    "string \<Rightarrow> string \<Rightarrow> (nat \<Rightarrow> 8 word) \<Rightarrow> ShortenUrlRequest \<Rightarrow> database
      \<Rightarrow> reply \<times> database" where
  "shorten protocol hostname rng body db =
     (if falsy (originalUrl body) \<or> userId body = None
        then (\<lparr>status = 400,
               payload = ErrorBody ''Original URL and User ID are required.''\<rparr>, db)
      else
        let shortId = toString_hex (randomBytes 4 rng);
            shortUrl = protocol @ ''://'' @ hostname @ ''/'' @ shortId
        in case insert_urls \<lparr>urls_id = shortId, urls_originalUrl = the (originalUrl body),
                              urls_shortUrl = shortUrl, urls_userId = userId body\<rparr> db of
             Inr db' \<Rightarrow>
               (\<lparr>status = 201,
                 payload = UrlBody shortId (the (originalUrl body)) shortUrl\<rparr>, db')
           | Inl e \<Rightarrow>
               (\<lparr>status = 500, payload = ErrorBody ''Internal Server Error.''\<rparr>, db))"

text \<open>\<^verbatim>\<open>GET /urls/:id/stats\<close> (urlRoutes.ts)\<close>

definition stats :: "(joined \<Rightarrow> nat) \<Rightarrow> string \<Rightarrow> database \<Rightarrow> reply \<times> database" where
  "stats rank ident db =
     (case left_join_clicks rank (select_urls_where_id ident db) db of
        [] \<Rightarrow> (\<lparr>status = 404, payload = ErrorBody ''URL not found''\<rparr>, db)
      | (u, c) # rest \<Rightarrow>
          (\<lparr>status = 200,
            payload = StatsBody (urls_id u) (urls_originalUrl u) (urls_shortUrl u)
                        (case c of None \<Rightarrow> None | Some k \<Rightarrow> clicks_clickCount k)
                        (case c of None \<Rightarrow> None | Some k \<Rightarrow> clicks_lastClickedAt k)\<rparr>,
           db))"

text \<open>
  \<^verbatim>\<open>GET /:shortId\<close> (urlRoutes.ts). The statement runs against the \<^verbatim>\<open>clicks\<close> table
  as the schema declares it, so with \<open>clicks_unique_indexes\<close>. Both \<^verbatim>\<open>new Date()\<close> are
  read while the one statement is built and are the same reading \<open>now\<close>.
\<close>

definition redirect :: "timestamp \<Rightarrow> uuid \<Rightarrow> string \<Rightarrow> database \<Rightarrow> reply \<times> database" where
  "redirect now newId shortId db =
     (case select_urls_where_id shortId db of
        urlRecord # rest \<Rightarrow>
          (case upsert_clicks clicks_unique_indexes newId (urls_id urlRecord) now db of
             Inr db' \<Rightarrow> (\<lparr>status = 302, payload = RedirectTo (urls_originalUrl urlRecord)\<rparr>, db')
           | Inl e \<Rightarrow> (\<lparr>status = 500, payload = ErrorBody ''Internal Server Error''\<rparr>, db))
      | [] \<Rightarrow> (\<lparr>status = 404, payload = MessageBody ''Shortened URL not found.''\<rparr>, db))"

text \<open>
  \<^verbatim>\<open>POST /users\<close> (userRoutes.ts); \<open>newId\<close> is the value that the column default
  \<^verbatim>\<open>gen_random_uuid()\<close> draws for the new row.
\<close>

definition createUser :: "uuid \<Rightarrow> CreateUserRequest \<Rightarrow> database \<Rightarrow> reply \<times> database" where
  "createUser newId body db =
     (case insert_users \<lparr>users_id = newId, users_firstName = firstName body,
                          users_lastName = lastName body, users_email = email body,
                          users_phoneNumber = phoneNumber body,
                          users_profileImageUrl = profileImageUrl body\<rparr> db of
        Inr db' \<Rightarrow>
          (\<lparr>status = 201,
            payload = UserBody newId (firstName body) (lastName body) (email body)
                        (phoneNumber body) (profileImageUrl body)\<rparr>, db')
      | Inl e \<Rightarrow>
          if str_includes (message e) ''duplicate key''
            then (\<lparr>status = 409, payload = ErrorBody ''Email already exists''\<rparr>, db)
          else (\<lparr>status = 500, payload = ErrorBody ''Internal Server Error''\<rparr>, db))"

text \<open>
  \<^verbatim>\<open>GET /users/:userId/urls\<close> (userRoutes.ts). The select nests the two click columns
  in an object \<^verbatim>\<open>clicks\<close>. drizzle maps a row of a left join so that a nested object
  all of whose columns are of the joined table is \<^verbatim>\<open>null\<close> as a whole when its first
  column, here \<^verbatim>\<open>clickCount\<close>, is null: so for a URL without a click row.
\<close>

definition select_urls_where_userId :: "uuid \<Rightarrow> database \<Rightarrow> urls_row list" where
  "select_urls_where_userId uid db = filter (\<lambda>u. urls_userId u = Some uid) (urls db)"

definition url_with_clicks ::
    "joined \<Rightarrow> string \<times> string \<times> string \<times> (int option \<times> timestamp option) option" where
  "url_with_clicks uc =
     (case uc of
        (u, None) \<Rightarrow> (urls_id u, urls_originalUrl u, urls_shortUrl u, None)
      | (u, Some k) \<Rightarrow>
          (urls_id u, urls_originalUrl u, urls_shortUrl u,
           if clicks_clickCount k = None then None
           else Some (clicks_clickCount k, clicks_lastClickedAt k)))"

definition userUrls :: "(joined \<Rightarrow> nat) \<Rightarrow> uuid \<Rightarrow> database \<Rightarrow> reply \<times> database" where
  "userUrls rank uid db =
     (case select_users_where_id uid db of
        [] \<Rightarrow> (\<lparr>status = 404, payload = ErrorBody ''User not found''\<rparr>, db)
      | user # rest \<Rightarrow>
          (\<lparr>status = 200,
            payload = UrlListBody
              (map url_with_clicks
                 (left_join_clicks rank (select_urls_where_userId uid db) db))\<rparr>,
           db))"

section \<open>The service as a state machine\<close>

text \<open>
  A request carries what its handler reads from outside the database: the protocol and
  host of the request line and the random generator for \<^verbatim>\<open>POST /shorten\<close>, the
  clock's reading and the fresh row id for \<^verbatim>\<open>GET /:shortId\<close>, the fresh row id for
  \<^verbatim>\<open>POST /users\<close>, the storage's order of answer for the two joins. The reachable databases are those that the service makes of the
  empty tables by answering requests one after the other.
\<close>

datatype request =
  PostShorten string string "nat \<Rightarrow> 8 word" ShortenUrlRequest
  | GetStats "joined \<Rightarrow> nat" string
  | GetRedirect timestamp uuid string
  | PostUsers uuid CreateUserRequest
  | GetUserUrls "joined \<Rightarrow> nat" uuid

fun handle :: "request \<Rightarrow> database \<Rightarrow> reply \<times> database" where
  "handle (PostShorten protocol hostname rng body) db = shorten protocol hostname rng body db"
| "handle (GetStats rank ident) db = stats rank ident db"
| "handle (GetRedirect now newId shortId) db = redirect now newId shortId db"
| "handle (PostUsers newId body) db = createUser newId body db"
| "handle (GetUserUrls rank uid) db = userUrls rank uid db"

inductive reachable :: "database \<Rightarrow> bool" where
  initial: "reachable empty_database"
| served: "reachable db \<Longrightarrow> reachable (snd (handle r db))"

subsection \<open>Redirects in flight together\<close>

text \<open>
  Node runs a handler until its next \<^verbatim>\<open>await\<close>, and the redirect handler awaits
  twice: the select, then the insert with its \<^verbatim>\<open>ON CONFLICT\<close> clause. A redirect in
  flight is therefore before its select, before its insert (holding the row it selected),
  or answered; each statement is one step against the database, and requests in flight
  together take their steps in any order. A schedule lists, step by step, the position of
  the request that moves.
\<close>

datatype redirect_task =
  Selecting timestamp uuid string
  | Upserting timestamp uuid urls_row
  | Replied reply

fun redirect_step :: "redirect_task \<Rightarrow> database \<Rightarrow> redirect_task \<times> database" where
  "redirect_step (Selecting now newId shortId) db =
     (case select_urls_where_id shortId db of
        urlRecord # rest \<Rightarrow> (Upserting now newId urlRecord, db)
      | [] \<Rightarrow>
          (Replied \<lparr>status = 404, payload = MessageBody ''Shortened URL not found.''\<rparr>, db))"
| "redirect_step (Upserting now newId urlRecord) db =
     (case upsert_clicks clicks_unique_indexes newId (urls_id urlRecord) now db of
        Inr db' \<Rightarrow>
          (Replied \<lparr>status = 302, payload = RedirectTo (urls_originalUrl urlRecord)\<rparr>, db')
      | Inl e \<Rightarrow>
          (Replied \<lparr>status = 500, payload = ErrorBody ''Internal Server Error''\<rparr>, db))"
| "redirect_step (Replied r) db = (Replied r, db)"

fun run_schedule ::
    "nat list \<Rightarrow> redirect_task list \<Rightarrow> database \<Rightarrow> redirect_task list \<times> database" where
  "run_schedule [] tasks db = (tasks, db)"
| "run_schedule (i # schedule) tasks db =
     (if i < length tasks
        then case redirect_step (tasks ! i) db of
               (task', db') \<Rightarrow> run_schedule schedule (tasks[i := task']) db'
      else run_schedule schedule tasks db)"

subsection \<open>The failures the spec names\<close>

text \<open>
  Section 7 of the spec sorts failures by the status they surface as: ValidationError
  (400), NotFoundError (404), ConflictError (409), InternalError (500).
\<close>

datatype failure = ValidationError | NotFoundError | ConflictError | InternalError

definition failure_of :: "reply \<Rightarrow> failure option" where
  "failure_of r =
     (if status r = 400 then Some ValidationError
      else if status r = 404 then Some NotFoundError
      else if status r = 409 then Some ConflictError
      else if status r = 500 then Some InternalError
      else None)"

subsection \<open>Sample data\<close>

definition alice :: users_row where
  "alice = \<lparr>users_id = 7, users_firstName = ''Alice'', users_lastName = ''Liddell'',
             users_email = ''alice@example.com'', users_phoneNumber = None,
             users_profileImageUrl = None\<rparr>"

definition alice_request :: CreateUserRequest where
  "alice_request = \<lparr>firstName = ''Alice'', lastName = ''Liddell'',
                     email = ''alice@example.com'', phoneNumber = None,
                     profileImageUrl = None\<rparr>"

definition wiki :: urls_row where
  "wiki = \<lparr>urls_id = ''00000000'', urls_originalUrl = ''https://example.com/wiki'',
            urls_shortUrl = ''http://localhost/00000000'', urls_userId = Some 7\<rparr>"

definition wiki_request :: ShortenUrlRequest where
  "wiki_request = \<lparr>originalUrl = Some ''https://example.com/wiki'', userId = Some 7\<rparr>"

definition signed_up :: database where
  "signed_up = \<lparr>users = [alice], urls = [], clicks = []\<rparr>"

definition one_url :: database where
  "one_url = \<lparr>users = [alice], urls = [wiki], clicks = []\<rparr>"





definition clicked_once :: database where
  "clicked_once =
     \<lparr>users = [alice], urls = [wiki],
      clicks = [\<lparr>clicks_id = 1, clicks_urlId = Some ''00000000'',
                 clicks_clickCount = Some 1, clicks_lastClickedAt = Some 1000\<rparr>]\<rparr>"

section \<open>Facts about the statements\<close>

lemma select_urls_where_id_Nil:
  "select_urls_where_id shortId db = [] \<longleftrightarrow> shortId \<notin> urls_id ` set (urls db)"
  by (auto simp add: select_urls_where_id_def filter_empty_conv)

lemma select_users_where_id_Nil:
  "select_users_where_id uid db = [] \<longleftrightarrow> uid \<notin> users_id ` set (users db)"
  by (auto simp add: select_users_where_id_def filter_empty_conv)

text \<open>
  No unique index of \<^verbatim>\<open>clicks\<close> is on \<^verbatim>\<open>url_id\<close> alone, so the statement of the
  redirect handler is rejected whatever the tables hold.
\<close>

lemma upsert_clicks_rejected:
  "upsert_clicks clicks_unique_indexes newId urlId now db = Inl NoConflictArbiter"
  by (simp add: upsert_clicks_def clicks_unique_indexes_def)

text \<open>
  Against a table that did have a unique index on \<^verbatim>\<open>url_id\<close>, the same statement
  inserts the row of the first click and counts the second.
\<close>

lemma upsert_clicks_given_unique_urlId:
  "upsert_clicks [[Col_id], [Col_urlId]] 1 ''00000000'' 1000 one_url = Inr clicked_once"
  "upsert_clicks [[Col_id], [Col_urlId]] 2 ''00000000'' 2000 clicked_once =
     Inr \<lparr>users = [alice], urls = [wiki],
          clicks = [\<lparr>clicks_id = 1, clicks_urlId = Some ''00000000'',
                     clicks_clickCount = Some 2, clicks_lastClickedAt = Some 2000\<rparr>]\<rparr>"
  by (simp_all add: upsert_clicks_def clicks_of_def select_urls_where_id_def bump_click_def
      one_url_def clicked_once_def wiki_def)

section \<open>What each handler leaves of the database\<close>

lemma redirect_known:
  assumes "select_urls_where_id shortId db \<noteq> []"
  shows "redirect now newId shortId db =
    (\<lparr>status = 500, payload = ErrorBody ''Internal Server Error''\<rparr>, db)"
  using assms by (simp add: redirect_def upsert_clicks_rejected split: list.split)

lemma redirect_unknown:
  assumes "select_urls_where_id shortId db = []"
  shows "redirect now newId shortId db =
    (\<lparr>status = 404, payload = MessageBody ''Shortened URL not found.''\<rparr>, db)"
  using assms by (simp add: redirect_def)

lemma redirect_database: "snd (redirect now newId shortId db) = db"
  by (cases "select_urls_where_id shortId db = []")
    (simp_all add: redirect_known redirect_unknown)

lemma stats_database: "snd (stats rank ident db) = db"
  by (simp add: stats_def split: list.split prod.split)

lemma userUrls_database: "snd (userUrls rank uid db) = db"
  by (simp add: userUrls_def split: list.split)

lemma shorten_clicks: "clicks (snd (shorten protocol hostname rng body db)) = clicks db"
  by (simp add: shorten_def insert_urls_def Let_def split: sum.split option.split)

lemma createUser_clicks: "clicks (snd (createUser newId body db)) = clicks db"
  by (simp add: createUser_def insert_users_def)

lemma handle_clicks: "clicks (snd (handle r db)) = clicks db"
  by (cases r)
    (simp_all add: shorten_clicks stats_database redirect_database createUser_clicks
      userUrls_database)

lemma reachable_clicks: "reachable db \<Longrightarrow> clicks db = []"
  by (induction rule: reachable.induct) (simp_all add: empty_database_def handle_clicks)

lemma redirect_step_database: "snd (redirect_step task db) = db"
proof (cases task)
  case (Selecting now newId shortId)
  then show ?thesis by (simp split: list.split)
next
  case (Upserting now newId urlRecord)
  then show ?thesis by (simp add: upsert_clicks_rejected)
next
  case (Replied r)
  then show ?thesis by simp
qed

text \<open>A redirect alone takes its two steps one after the other: that is the handler.\<close>

lemma redirect_is_two_steps:
  "(case redirect_step (Selecting now newId shortId) db of
      (task, db1) \<Rightarrow> redirect_step task db1) =
   (case redirect now newId shortId db of (r, db2) \<Rightarrow> (Replied r, db2))"
  by (simp add: redirect_def split: list.split sum.split)

text \<open>Whatever the order of their steps, redirects in flight together write nothing.\<close>

lemma run_schedule_database: "snd (run_schedule schedule tasks db) = db"
proof (induction schedule arbitrary: tasks)
  case Nil
  show ?case by simp
next
  case (Cons i schedule)
  show ?case
  proof (cases "i < length tasks")
    case True
    obtain task' db' where step: "redirect_step (tasks ! i) db = (task', db')"
      by (cases "redirect_step (tasks ! i) db")
    with redirect_step_database [of "tasks ! i" db] have "db' = db" by simp
    with step True Cons.IH [of "tasks[i := task']"] show ?thesis by simp
  next
    case False
    with Cons.IH [of tasks] show ?thesis by simp
  qed
qed

text \<open>The sample database \<open>one_url\<close> is what two requests make of the empty tables.\<close>

lemma hex_of_zero_bytes: "toString_hex (randomBytes 4 (\<lambda>k. 0)) = ''00000000''"
  by (simp add: toString_hex_def randomBytes_def hex_byte_def hex_digit_def upt_rec)

lemma hex_of_sample_bytes: "toString_hex [0xde, 0xad, 0xbe, 0xef] = ''deadbeef''"
  by (simp add: toString_hex_def hex_byte_def hex_digit_def)

lemma shorten_first_url:
  "shorten ''http'' ''localhost'' (\<lambda>k. 0) wiki_request signed_up =
     (\<lparr>status = 201,
       payload = UrlBody ''00000000'' ''https://example.com/wiki''
                   ''http://localhost/00000000''\<rparr>, one_url)"
  by (simp add: shorten_def hex_of_zero_bytes insert_urls_def select_users_where_id_def
      falsy_def Let_def wiki_request_def signed_up_def alice_def one_url_def wiki_def)

lemma reachable_one_url: "reachable one_url"
proof -
  have "snd (handle (PostUsers 7 alice_request) empty_database) = signed_up"
    by (simp add: createUser_def insert_users_def empty_database_def signed_up_def
        alice_def alice_request_def)
  with reachable.served [OF reachable.initial, of "PostUsers 7 alice_request"]
  have "reachable signed_up" by simp
  from reachable.served [OF this,
      of "PostShorten ''http'' ''localhost'' (\<lambda>k. 0) wiki_request"]
  show ?thesis by (simp add: shorten_first_url)
qed

section \<open>Facts about the handlers\<close>

lemma list_ex_eq_image: "list_ex (\<lambda>u. f u = v) us \<longleftrightarrow> v \<in> f ` set us"
  by (auto simp add: list_ex_iff)

subsection \<open>The short id is eight hexadecimal digits\<close>

lemma length_randomBytes: "length (randomBytes n rng) = n"
  by (simp add: randomBytes_def)

lemma length_toString_hex: "length (toString_hex bs) = 2 * length bs"
  by (induction bs) (simp_all add: toString_hex_def hex_byte_def)

lemma hex_digit_no_slash:
  assumes "d < 16"
  shows "hex_digit d \<noteq> CHR ''/''"
proof -
  from assms have "hex_digit d \<in> set ''0123456789abcdef''"
    unfolding hex_digit_def by (intro nth_mem) simp
  then show ?thesis by auto
qed

lemma hex_byte_no_slash: "CHR ''/'' \<notin> set (hex_byte b)"
proof -
  have "unat b < 256" using unsigned_less [of b] by simp
  then have "unat b div 16 < 16" by simp
  moreover have "unat b mod 16 < 16" by simp
  ultimately show ?thesis
    using hex_digit_no_slash [of "unat b div 16"] hex_digit_no_slash [of "unat b mod 16"]
    by (auto simp add: hex_byte_def)
qed

lemma toString_hex_no_slash: "CHR ''/'' \<notin> set (toString_hex bs)"
  by (induction bs) (simp_all add: toString_hex_def hex_byte_no_slash)

subsection \<open>Shortening\<close>

lemma insert_urls_accepts:
  assumes "urls_id row \<notin> urls_id ` set (urls db)"
    and "urls_shortUrl row \<notin> urls_shortUrl ` set (urls db)"
    and "urls_userId row = Some uid" and "uid \<in> users_id ` set (users db)"
  shows "insert_urls row db = Inr (db\<lparr>urls := urls db @ [row]\<rparr>)"
  using assms
  by (simp add: insert_urls_def list_ex_eq_image select_users_where_id_Nil)

lemma insert_urls_rejects:
  assumes "urls_id row \<in> urls_id ` set (urls db) \<or>
      urls_shortUrl row \<in> urls_shortUrl ` set (urls db) \<or>
      (urls_userId row = Some uid \<and> uid \<notin> users_id ` set (users db))"
  shows "\<exists>e. insert_urls row db = Inl e"
  using assms
  by (auto simp add: insert_urls_def list_ex_eq_image select_users_where_id_Nil)

lemma shorten_required:
  assumes "falsy (originalUrl body) \<or> userId body = None"
  shows "shorten protocol hostname rng body db =
    (\<lparr>status = 400, payload = ErrorBody ''Original URL and User ID are required.''\<rparr>, db)"
  using assms by (auto simp add: shorten_def)

lemma shorten_accepted:
  assumes "originalUrl body = Some url" and "url \<noteq> []" and "userId body = Some uid"
    and "shortId = toString_hex (randomBytes 4 rng)"
    and "shortUrl = protocol @ ''://'' @ hostname @ ''/'' @ shortId"
    and "shortId \<notin> urls_id ` set (urls db)"
    and "shortUrl \<notin> urls_shortUrl ` set (urls db)"
    and "uid \<in> users_id ` set (users db)"
  shows "shorten protocol hostname rng body db =
    (\<lparr>status = 201, payload = UrlBody shortId url shortUrl\<rparr>,
     db\<lparr>urls := urls db @ [\<lparr>urls_id = shortId, urls_originalUrl = url,
                             urls_shortUrl = shortUrl, urls_userId = Some uid\<rparr>]\<rparr>)"
proof -
  let ?row = "\<lparr>urls_id = shortId, urls_originalUrl = url,
               urls_shortUrl = shortUrl, urls_userId = Some uid\<rparr>"
  have "insert_urls ?row db = Inr (db\<lparr>urls := urls db @ [?row]\<rparr>)"
    using assms(6-8) by (intro insert_urls_accepts [where uid = uid]) simp_all
  with assms(1-5) show ?thesis
    by (simp add: shorten_def falsy_def Let_def)
qed

lemma shorten_rejected:
  assumes "originalUrl body = Some url" and "url \<noteq> []" and "userId body = Some uid"
    and "shortId = toString_hex (randomBytes 4 rng)"
    and "shortUrl = protocol @ ''://'' @ hostname @ ''/'' @ shortId"
    and "shortId \<in> urls_id ` set (urls db) \<or> shortUrl \<in> urls_shortUrl ` set (urls db) \<or>
         uid \<notin> users_id ` set (users db)"
  shows "shorten protocol hostname rng body db =
    (\<lparr>status = 500, payload = ErrorBody ''Internal Server Error.''\<rparr>, db)"
proof -
  let ?row = "\<lparr>urls_id = shortId, urls_originalUrl = url,
               urls_shortUrl = shortUrl, urls_userId = Some uid\<rparr>"
  from assms(6) have "\<exists>e. insert_urls ?row db = Inl e"
    by (intro insert_urls_rejects [where uid = uid]) auto
  then obtain e where "insert_urls ?row db = Inl e" ..
  with assms(1-5) show ?thesis
    by (simp add: shorten_def falsy_def Let_def)
qed

lemma shorten_users: "users (snd (shorten protocol hostname rng body db)) = users db"
  by (simp add: shorten_def insert_urls_def Let_def split: sum.split option.split)

subsection \<open>Users\<close>

lemma createUser_duplicate_email:
  assumes "email body \<in> users_email ` set (users db)"
  shows "createUser newId body db =
    (\<lparr>status = 409, payload = ErrorBody ''Email already exists''\<rparr>, db)"
proof -
  from assms have dup: "list_ex (\<lambda>u. users_email u = email body) (users db)"
    by (simp add: list_ex_eq_image)
  show ?thesis
  proof (cases "list_ex (\<lambda>u. users_id u = newId) (users db)")
    case True
    then show ?thesis by (simp add: createUser_def insert_users_def)
  next
    case False
    with dup show ?thesis by (simp add: createUser_def insert_users_def)
  qed
qed

lemma createUser_emails:
  assumes "distinct (map users_email (users db))"
  shows "distinct (map users_email (users (snd (createUser newId body db))))"
proof (cases "insert_users \<lparr>users_id = newId, users_firstName = firstName body,
      users_lastName = lastName body, users_email = email body,
      users_phoneNumber = phoneNumber body,
      users_profileImageUrl = profileImageUrl body\<rparr> db")
  case (Inl e)
  with assms show ?thesis by (simp add: createUser_def)
next
  case (Inr db')
  then have "users db' = users db @ [\<lparr>users_id = newId, users_firstName = firstName body,
      users_lastName = lastName body, users_email = email body,
      users_phoneNumber = phoneNumber body,
      users_profileImageUrl = profileImageUrl body\<rparr>]"
    and "\<not> list_ex (\<lambda>u. users_email u = email body) (users db)"
    by (auto simp add: insert_users_def split: if_splits)
  with assms Inr show ?thesis
    by (auto simp add: createUser_def list_ex_iff)
qed

lemma handle_emails:
  assumes "distinct (map users_email (users db))"
  shows "distinct (map users_email (users (snd (handle r db))))"
  using assms
  by (cases r)
    (simp_all add: shorten_users stats_database redirect_database createUser_emails
      userUrls_database)

lemma reachable_emails: "reachable db \<Longrightarrow> distinct (map users_email (users db))"
  by (induction rule: reachable.induct) (simp_all add: empty_database_def handle_emails)

subsection \<open>The joins\<close>












section \<open>The redirect\<close>

text \<open>
  C1. The claim: a redirect to a known short id inserts the click row with count 1, or
  counts one more and refreshes the time, so that two redirects leave a row with
  \<^verbatim>\<open>clickCount = 2\<close>. On the code, for the database \<open>one_url\<close> (one user, her URL
  \<^verbatim>\<open>00000000\<close>, no click yet): both redirects are answered 500 and no click row for
  \<^verbatim>\<open>00000000\<close> exists afterwards, because the \<^verbatim>\<open>ON CONFLICT\<close> target \<^verbatim>\<open>url_id\<close> has no
  unique index in the schema.
\<close>

theorem redirect_twice_leaves_no_click_row:
  "(case redirect 1000 1 ''00000000'' one_url of
      (first, db1) \<Rightarrow>
        (case redirect 2000 2 ''00000000'' db1 of
           (second, db2) \<Rightarrow> (status first, status second, clicks_of ''00000000'' db2)))
   = (500, 500, [])"
proof -
  have known: "select_urls_where_id ''00000000'' one_url \<noteq> []"
    by (simp add: select_urls_where_id_def one_url_def wiki_def)
  have "clicks_of ''00000000'' one_url = []"
    by (simp add: clicks_of_def one_url_def)
  then show ?thesis
    by (simp add: redirect_known [OF known])
qed

text \<open>
  C3. The claim: \<open>N\<close> redirects to one short id in flight together leave
  \<^verbatim>\<open>clickCount = N\<close>. On the code, for two redirects to \<^verbatim>\<open>00000000\<close> whose steps
  alternate: both are answered 500 and the database is as before, without a click row.
\<close>

theorem concurrent_redirects_leave_no_click_row:
  "run_schedule [0, 1, 0, 1]
      [Selecting 1000 1 ''00000000'', Selecting 1001 2 ''00000000''] one_url
    = ([Replied \<lparr>status = 500, payload = ErrorBody ''Internal Server Error''\<rparr>,
        Replied \<lparr>status = 500, payload = ErrorBody ''Internal Server Error''\<rparr>],
       one_url)
   \<and> clicks_of ''00000000'' one_url = []"
  by (simp add: select_urls_where_id_def clicks_of_def one_url_def wiki_def
      upsert_clicks_rejected)

text \<open>
  C4. A redirect to a short id that no URL row has is answered 404 and returns the
  database as it was: no click row is created.
\<close>

theorem redirect_unknown_short_id:
  assumes "shortId \<notin> urls_id ` set (urls db)"
  shows "redirect now newId shortId db =
    (\<lparr>status = 404, payload = MessageBody ''Shortened URL not found.''\<rparr>, db)"
proof -
  from assms have "select_urls_where_id shortId db = []"
    by (simp add: select_urls_where_id_Nil)
  then show ?thesis by (rule redirect_unknown)
qed

theorem redirect_unknown_short_id_witness:
  "''deadbeef'' \<notin> urls_id ` set (urls clicked_once) \<and>
   redirect 2000 2 ''deadbeef'' clicked_once =
     (\<lparr>status = 404, payload = MessageBody ''Shortened URL not found.''\<rparr>, clicked_once)"
proof -
  have unknown: "''deadbeef'' \<notin> urls_id ` set (urls clicked_once)"
    by (simp add: clicked_once_def wiki_def)
  with redirect_unknown_short_id [OF unknown] show ?thesis by simp
qed

section \<open>The click rows\<close>

text \<open>
  C2. In every reachable database a URL has at most one click row, and no request takes
  a database with at most one click row for a URL to one with more.
\<close>

theorem one_click_row_per_url:
  "(reachable db \<longrightarrow> length (clicks_of u db) \<le> 1) \<and>
   (length (clicks_of u db) \<le> 1 \<longrightarrow> length (clicks_of u (snd (handle r db))) \<le> 1)"
proof
  show "reachable db \<longrightarrow> length (clicks_of u db) \<le> 1"
    by (simp add: clicks_of_def reachable_clicks)
next
  have "clicks_of u (snd (handle r db)) = clicks_of u db"
    by (simp add: clicks_of_def handle_clicks)
  then show "length (clicks_of u db) \<le> 1 \<longrightarrow> length (clicks_of u (snd (handle r db))) \<le> 1"
    by simp
qed

theorem one_click_row_per_url_witness:
  "reachable one_url \<and> length (clicks_of ''00000000'' one_url) \<le> 1 \<and>
   length (clicks_of ''00000000'' clicked_once) \<le> 1 \<and>
   length (clicks_of ''00000000''
     (snd (handle (GetRedirect 2000 2 ''00000000'') clicked_once))) \<le> 1"
proof -
  have one: "length (clicks_of ''00000000'' clicked_once) \<le> 1"
    by (simp add: clicks_of_def clicked_once_def)
  from one_click_row_per_url [of one_url "''00000000''"] reachable_one_url
  have "length (clicks_of ''00000000'' one_url) \<le> 1" by simp
  moreover
  from one_click_row_per_url [of clicked_once "''00000000''" "GetRedirect 2000 2 ''00000000''"]
    one
  have "length (clicks_of ''00000000''
     (snd (handle (GetRedirect 2000 2 ''00000000'') clicked_once))) \<le> 1" by blast
  ultimately show ?thesis using reachable_one_url one by blast
qed

section \<open>The statistics\<close>

text \<open>
  C10. The statistics handler returns the database it was given, whether it answers 200
  or 404.
\<close>

theorem stats_read_only:
  "snd (stats rank ident db) = db \<and>
   (status (fst (stats rank ident db)) = 200 \<or> status (fst (stats rank ident db)) = 404)"
  by (simp add: stats_def split: list.split prod.split)




section \<open>The users\<close>

text \<open>
  C8. A request to create a user whose email a user row already has is answered 409
  (the insert is rejected with a duplicate key, which the handler reads in the message)
  and returns the database as it was; and in no reachable database do two user rows share
  an email.
\<close>

theorem duplicate_email_conflict:
  "(email body \<in> users_email ` set (users db) \<longrightarrow>
      createUser newId body db =
        (\<lparr>status = 409, payload = ErrorBody ''Email already exists''\<rparr>, db)) \<and>
   (reachable db \<longrightarrow> distinct (map users_email (users db)))"
proof
  show "email body \<in> users_email ` set (users db) \<longrightarrow>
      createUser newId body db =
        (\<lparr>status = 409, payload = ErrorBody ''Email already exists''\<rparr>, db)"
    by (simp add: createUser_duplicate_email)
  show "reachable db \<longrightarrow> distinct (map users_email (users db))"
    by (simp add: reachable_emails)
qed

theorem duplicate_email_conflict_witness:
  "email alice_request \<in> users_email ` set (users one_url) \<and>
   createUser 8 alice_request one_url =
     (\<lparr>status = 409, payload = ErrorBody ''Email already exists''\<rparr>, one_url) \<and>
   reachable one_url \<and> distinct (map users_email (users one_url))"
proof -
  have "email alice_request \<in> users_email ` set (users one_url)"
    by (simp add: alice_request_def one_url_def alice_def)
  with duplicate_email_conflict [of alice_request one_url 8] reachable_one_url
  show ?thesis by blast
qed




section \<open>Shortening\<close>

text \<open>
  C5. The claim: every request with a valid payload is answered 201. On the code, for
  \<open>one_url\<close>, which holds the URL \<^verbatim>\<open>00000000\<close>, a valid request of its owner for which
  the generator yields four zero bytes is answered 500.
\<close>

theorem shorten_valid_payload_collides:
  "fst (shorten ''http'' ''localhost'' (\<lambda>k. 0) wiki_request one_url) =
     \<lparr>status = 500, payload = ErrorBody ''Internal Server Error.''\<rparr> \<and>
   status (fst (shorten ''http'' ''localhost'' (\<lambda>k. 0) wiki_request one_url)) \<noteq> 201"
  by (simp add: shorten_def hex_of_zero_bytes insert_urls_def falsy_def Let_def
      wiki_request_def one_url_def wiki_def)

text \<open>
  C5, as amended. For a request with an original URL and a user id, the short id is the
  hexadecimal writing of four random bytes: eight characters, none of them a slash; the
  short URL is protocol, host, a slash and the short id, so the short id is its last path
  segment. When no URL row has that id or that short URL and the user exists, the reply
  is 201 with the id, the original URL and the short URL, and the row is stored;
  otherwise the reply is 500 and the database is as before.
\<close>

theorem shorten_reply:
  assumes "originalUrl body = Some url" and "url \<noteq> []" and "userId body = Some uid"
    and "shortId = toString_hex (randomBytes 4 rng)"
    and "shortUrl = protocol @ ''://'' @ hostname @ ''/'' @ shortId"
  shows "length shortId = 8 \<and> CHR ''/'' \<notin> set shortId \<and>
    shorten protocol hostname rng body db =
      (if shortId \<notin> urls_id ` set (urls db) \<and> shortUrl \<notin> urls_shortUrl ` set (urls db) \<and>
          uid \<in> users_id ` set (users db)
       then (\<lparr>status = 201, payload = UrlBody shortId url shortUrl\<rparr>,
             db\<lparr>urls := urls db @ [\<lparr>urls_id = shortId, urls_originalUrl = url,
                                     urls_shortUrl = shortUrl, urls_userId = Some uid\<rparr>]\<rparr>)
       else (\<lparr>status = 500, payload = ErrorBody ''Internal Server Error.''\<rparr>, db))"
proof (intro conjI)
  from assms(4) show "length shortId = 8"
    by (simp add: length_toString_hex length_randomBytes)
  from assms(4) show "CHR ''/'' \<notin> set shortId"
    by (simp add: toString_hex_no_slash)
  show "shorten protocol hostname rng body db =
      (if shortId \<notin> urls_id ` set (urls db) \<and> shortUrl \<notin> urls_shortUrl ` set (urls db) \<and>
          uid \<in> users_id ` set (users db)
       then (\<lparr>status = 201, payload = UrlBody shortId url shortUrl\<rparr>,
             db\<lparr>urls := urls db @ [\<lparr>urls_id = shortId, urls_originalUrl = url,
                                     urls_shortUrl = shortUrl, urls_userId = Some uid\<rparr>]\<rparr>)
       else (\<lparr>status = 500, payload = ErrorBody ''Internal Server Error.''\<rparr>, db))"
  proof (cases "shortId \<notin> urls_id ` set (urls db) \<and>
      shortUrl \<notin> urls_shortUrl ` set (urls db) \<and> uid \<in> users_id ` set (users db)")
    case True
    with shorten_accepted [OF assms, of db] show ?thesis by simp
  next
    case False
    then have "shortId \<in> urls_id ` set (urls db) \<or>
        shortUrl \<in> urls_shortUrl ` set (urls db) \<or> uid \<notin> users_id ` set (users db)"
      by blast
    from shorten_rejected [OF assms this] False show ?thesis by simp
  qed
qed

theorem shorten_reply_witness:
  "originalUrl wiki_request = Some ''https://example.com/wiki'' \<and>
   userId wiki_request = Some 7 \<and>
   ''00000000'' = toString_hex (randomBytes 4 (\<lambda>k. 0)) \<and>
   length ''00000000'' = 8 \<and>
   shorten ''http'' ''localhost'' (\<lambda>k. 0) wiki_request signed_up =
     (\<lparr>status = 201,
       payload = UrlBody ''00000000'' ''https://example.com/wiki''
                   ''http://localhost/00000000''\<rparr>, one_url) \<and>
   shorten ''http'' ''localhost'' (\<lambda>k. 0) wiki_request one_url =
     (\<lparr>status = 500, payload = ErrorBody ''Internal Server Error.''\<rparr>, one_url)"
proof -
  have url: "originalUrl wiki_request = Some ''https://example.com/wiki''"
    and filled: "''https://example.com/wiki'' \<noteq> []"
    and uid: "userId wiki_request = Some 7"
    by (simp_all add: wiki_request_def)
  have hex: "''00000000'' = toString_hex (randomBytes 4 (\<lambda>k. 0))"
    by (simp add: hex_of_zero_bytes)
  have short: "''http://localhost/00000000'' = ''http'' @ ''://'' @ ''localhost'' @ ''/'' @ ''00000000''"
    by simp
  from shorten_reply [OF url filled uid hex short, of signed_up]
  have "shorten ''http'' ''localhost'' (\<lambda>k. 0) wiki_request signed_up =
     (\<lparr>status = 201,
       payload = UrlBody ''00000000'' ''https://example.com/wiki''
                   ''http://localhost/00000000''\<rparr>, one_url)"
    by (simp add: signed_up_def one_url_def wiki_def alice_def)
  moreover from shorten_reply [OF url filled uid hex short, of one_url]
  have "shorten ''http'' ''localhost'' (\<lambda>k. 0) wiki_request one_url =
     (\<lparr>status = 500, payload = ErrorBody ''Internal Server Error.''\<rparr>, one_url)"
    by (simp add: one_url_def wiki_def)
  moreover have "length ''00000000'' = 8" by simp
  ultimately show ?thesis using url uid hex by blast
qed

text \<open>
  C6. The claim: an id or short URL that the table already holds makes the operation
  fail with ConflictError, and only other failures are InternalError (500). On the code,
  for \<open>one_url\<close> and a request whose generated id \<^verbatim>\<open>00000000\<close> the table holds: the
  reply is 500 with \<^verbatim>\<open>Internal Server Error.\<close>, an InternalError.
\<close>

theorem shorten_collision_is_internal_error:
  "fst (shorten ''https'' ''mini.link'' (\<lambda>k. 0)
          \<lparr>originalUrl = Some ''https://example.com/faq'', userId = Some 7\<rparr> one_url) =
     \<lparr>status = 500, payload = ErrorBody ''Internal Server Error.''\<rparr> \<and>
   failure_of (fst (shorten ''https'' ''mini.link'' (\<lambda>k. 0)
          \<lparr>originalUrl = Some ''https://example.com/faq'', userId = Some 7\<rparr> one_url)) =
     Some InternalError \<and>
   toString_hex (randomBytes 4 (\<lambda>k. 0)) \<in> urls_id ` set (urls one_url)"
  by (simp add: shorten_def hex_of_zero_bytes insert_urls_def falsy_def Let_def
      failure_of_def one_url_def wiki_def)

text \<open>
  C6, as amended. The reply is a ValidationError (400) exactly when the original URL is
  absent or empty or the user id is absent. It is an InternalError (500) exactly when
  both are given and the insert is rejected: the generated id or the short URL is in the
  table already, or the user does not exist. It is never a ConflictError. Every other
  reply is 201, and a reply other than 201 leaves the database as it was.
\<close>

theorem shorten_failures:
  assumes "shortId = toString_hex (randomBytes 4 rng)"
    and "shortUrl = protocol @ ''://'' @ hostname @ ''/'' @ shortId"
    and "r = fst (shorten protocol hostname rng body db)"
  shows "(failure_of r = Some ValidationError \<longleftrightarrow>
            falsy (originalUrl body) \<or> userId body = None) \<and>
         (failure_of r = Some InternalError \<longleftrightarrow>
            \<not> falsy (originalUrl body) \<and>
            (\<exists>uid. userId body = Some uid \<and>
               (shortId \<in> urls_id ` set (urls db) \<or>
                shortUrl \<in> urls_shortUrl ` set (urls db) \<or>
                uid \<notin> users_id ` set (users db)))) \<and>
         failure_of r \<noteq> Some ConflictError \<and>
         (failure_of r = None \<longleftrightarrow> status r = 201) \<and>
         (status r = 201 \<or> snd (shorten protocol hostname rng body db) = db)"
proof (cases "falsy (originalUrl body) \<or> userId body = None")
  case True
  from shorten_required [OF this] assms(3) show ?thesis
    using True by (auto simp add: failure_of_def)
next
  case False
  then obtain url uid where body: "originalUrl body = Some url" "url \<noteq> []"
      "userId body = Some uid"
    by (auto simp add: falsy_def split: option.splits)
  show ?thesis
  proof (cases "shortId \<in> urls_id ` set (urls db) \<or>
      shortUrl \<in> urls_shortUrl ` set (urls db) \<or> uid \<notin> users_id ` set (users db)")
    case True
    from shorten_rejected [OF body assms(1,2) True] assms(3) False True body
    show ?thesis by (auto simp add: failure_of_def)
  next
    case accepted: False
    then have "shortId \<notin> urls_id ` set (urls db)"
      "shortUrl \<notin> urls_shortUrl ` set (urls db)" "uid \<in> users_id ` set (users db)"
      by simp_all
    from shorten_accepted [OF body assms(1,2) this] assms(3) False accepted body
    show ?thesis by (auto simp add: failure_of_def)
  qed
qed

theorem shorten_failures_witness:
  "''00000000'' = toString_hex (randomBytes 4 (\<lambda>k. 0)) \<and>
   failure_of (fst (shorten ''http'' ''localhost'' (\<lambda>k. 0)
       \<lparr>originalUrl = Some [], userId = Some 7\<rparr> one_url)) = Some ValidationError \<and>
   failure_of (fst (shorten ''http'' ''localhost'' (\<lambda>k. 0)
       \<lparr>originalUrl = Some ''https://example.com/faq'', userId = Some 9\<rparr> signed_up)) =
     Some InternalError"
proof -
  have hex: "''00000000'' = toString_hex (randomBytes 4 (\<lambda>k. 0))"
    by (simp add: hex_of_zero_bytes)
  from shorten_failures [OF hex refl refl,
      where protocol = "''http''" and hostname = "''localhost''" and db = one_url
        and body = "\<lparr>originalUrl = Some [], userId = Some 7\<rparr>"]
  have "failure_of (fst (shorten ''http'' ''localhost'' (\<lambda>k. 0)
       \<lparr>originalUrl = Some [], userId = Some 7\<rparr> one_url)) = Some ValidationError"
    by (simp add: falsy_def)
  moreover
  from shorten_failures [OF hex refl refl,
      where protocol = "''http''" and hostname = "''localhost''" and db = signed_up
        and body = "\<lparr>originalUrl = Some ''https://example.com/faq'', userId = Some 9\<rparr>"]
  have "failure_of (fst (shorten ''http'' ''localhost'' (\<lambda>k. 0)
       \<lparr>originalUrl = Some ''https://example.com/faq'', userId = Some 9\<rparr> signed_up)) =
     Some InternalError"
    by (simp add: falsy_def signed_up_def alice_def)
  ultimately show ?thesis using hex by blast
qed

end
